theory Spec2Isabelle
  imports Complex_Main
begin

section \<open>Values, errors and effects\<close>

text \<open>
  A shallow embedding of \<^verbatim>\<open>helpers.ts\<close>, \<^verbatim>\<open>consts.ts\<close> and \<^verbatim>\<open>main.ts\<close>.

  \<^item> A JavaScript value that is thrown is a \<open>thrown\<close>: either \<open>undefined\<close> (the value of
    an unassigned \<^verbatim>\<open>let lastError: unknown\<close>) or an \<^verbatim>\<open>Error\<close> with its message.
  \<^item> An asynchronous computation (\<^verbatim>\<open>Promise<T>\<close>, awaited at once everywhere in the
    source) is a function from the state of the outside world to its settlement and the
    new state: \<open>Inr v\<close> when it resolves with \<open>v\<close>, \<open>Inl e\<close> when it rejects with \<open>e\<close>.
  \<^item> \<^verbatim>\<open>number\<close> durations and multipliers are \<open>real\<close> (rounding of doubles is not
    modelled); the retry count and the loop counter are \<open>int\<close>; a \<^verbatim>\<open>BN\<close> is an \<open>int\<close>.
  \<^item> Console output never changes control flow and is left out.
\<close>

datatype thrown = Undefined | Error string

type_synonym ('s, 'a) io = "'s \<Rightarrow> (thrown + 'a) \<times> 's"

definition io_return :: "'a \<Rightarrow> ('s, 'a) io" where
  "io_return v = (\<lambda>s. (Inr v, s))"

definition io_throw :: "thrown \<Rightarrow> ('s, 'a) io" where
  "io_throw e = (\<lambda>s. (Inl e, s))"

text \<open>\<^verbatim>\<open>const x = await m; k(x)\<close>: a rejection of \<open>m\<close> propagates, nothing after it runs.\<close>

definition io_bind :: "('s, 'a) io \<Rightarrow> ('a \<Rightarrow> ('s, 'b) io) \<Rightarrow> ('s, 'b) io" where
  "io_bind m k = (\<lambda>s. case m s of (Inl e, s') \<Rightarrow> (Inl e, s') | (Inr v, s') \<Rightarrow> k v s')"

section \<open>addSlippage\<close>

type_synonym BN = int

text \<open>
  \<^verbatim>\<open>muln\<close> and \<^verbatim>\<open>divn\<close> belong to the library \<^verbatim>\<open>bn.js\<close>, which is not part of the
  repository. They are taken as the arithmetic they stand for: \<^verbatim>\<open>muln\<close> multiplies by
  a number, \<^verbatim>\<open>divn\<close> divides by a number and truncates towards zero (it divides the
  magnitudes and restores the sign). The library's limit on the size of the number argument
  is not modelled, and \<^verbatim>\<open>slippageBps\<close> is taken to be an integer.
\<close>

definition muln :: "BN \<Rightarrow> int \<Rightarrow> BN" where
  "muln a n = a * n"

definition divn :: "BN \<Rightarrow> int \<Rightarrow> BN" where
  "divn a n = sgn a * sgn n * (\<bar>a\<bar> div \<bar>n\<bar>)"

definition addSlippage :: "BN \<Rightarrow> int \<Rightarrow> BN" where
  "addSlippage amount slippageBps = divn (muln amount (10000 + slippageBps)) 10000"

section \<open>retry\<close>

record RetryOptions =
  maxRetries :: int
  initialDelay :: "real option"
  maxDelay :: "real option"
  backoffMultiplier :: "real option"
  debug :: "bool option"

text \<open>The variables of the \<^verbatim>\<open>for\<close> loop of \<^verbatim>\<open>retry\<close>, and the outside world.\<close>

record 's retry_state =
  attempt :: int
  lastError :: thrown
  delay :: real
  world :: 's

text \<open>The three ways out of \<^verbatim>\<open>retry\<close>: the \<^verbatim>\<open>return result\<close> in the \<^verbatim>\<open>try\<close>
  block, the \<^verbatim>\<open>throw lastError\<close> in the \<^verbatim>\<open>catch\<close> block, and the
  \<^verbatim>\<open>throw lastError\<close> after the loop.\<close>

datatype 'a retry_exit = Return 'a | ThrowInLoop thrown | ThrowAfterLoop thrown

text \<open>
  \<^verbatim>\<open>sleep(ms)\<close> is \<^verbatim>\<open>new Promise((resolve) => setTimeout(resolve, ms))\<close>: it resolves
  when the timer fires and never rejects. What the outside world does in the meantime is the
  parameter \<open>setTimeout\<close>.
\<close>

definition sleep :: "(real \<Rightarrow> 's \<Rightarrow> 's) \<Rightarrow> real \<Rightarrow> ('s, unit) io" where
  "sleep setTimeout ms = (\<lambda>s. (Inr (), setTimeout ms s))"

text \<open>One pass through the body of the loop: \<open>Inl\<close> leaves the function, \<open>Inr\<close> is the
  state at the next test of \<^verbatim>\<open>attempt <= maxRetries\<close>.\<close>

definition retry_body ::
  "(real \<Rightarrow> 's \<Rightarrow> 's) \<Rightarrow> ('s, 'a) io \<Rightarrow> int \<Rightarrow> real \<Rightarrow> real \<Rightarrow> 's retry_state
     \<Rightarrow> ('a retry_exit \<times> 's) + 's retry_state" where
  "retry_body setTimeout callback maxRetries' maxDelay' backoffMultiplier' st =
     (case callback (world st) of
        (Inr result, s1) \<Rightarrow> Inl (Return result, s1)
      | (Inl error, s1) \<Rightarrow>
          if attempt st = maxRetries' then Inl (ThrowInLoop error, s1)
          else (case sleep setTimeout (min (delay st) maxDelay') s1 of
             (_, s2) \<Rightarrow>
                Inr \<lparr>attempt = attempt st + 1, lastError = error,
                     delay = delay st * backoffMultiplier', world = s2\<rparr>))"

function retry_loop ::
  "(real \<Rightarrow> 's \<Rightarrow> 's) \<Rightarrow> ('s, 'a) io \<Rightarrow> int \<Rightarrow> real \<Rightarrow> real \<Rightarrow> 's retry_state
     \<Rightarrow> 'a retry_exit \<times> 's" where
  "retry_loop setTimeout callback maxRetries' maxDelay' backoffMultiplier' st =
     (if attempt st \<le> maxRetries' then
        (case retry_body setTimeout callback maxRetries' maxDelay' backoffMultiplier' st of
           Inl out \<Rightarrow> out
         | Inr st' \<Rightarrow> retry_loop setTimeout callback maxRetries' maxDelay' backoffMultiplier' st')
      else (ThrowAfterLoop (lastError st), world st))"
  by pat_completeness auto
termination
  by (relation "measure (\<lambda>(T, cb, M, c, m, st). nat (M + 1 - attempt st))")
     (auto simp: retry_body_def sleep_def split: prod.splits sum.splits if_splits)

declare retry_loop.simps [simp del]

text \<open>The destructuring of \<^verbatim>\<open>options\<close>: a field that is \<^verbatim>\<open>undefined\<close> takes its default.\<close>

definition initialDelay_of :: "RetryOptions \<Rightarrow> real" where
  "initialDelay_of options = (case initialDelay options of None \<Rightarrow> 100 | Some d \<Rightarrow> d)"

definition maxDelay_of :: "RetryOptions \<Rightarrow> real" where
  "maxDelay_of options = (case maxDelay options of None \<Rightarrow> 30000 | Some c \<Rightarrow> c)"

definition backoffMultiplier_of :: "RetryOptions \<Rightarrow> real" where
  "backoffMultiplier_of options = (case backoffMultiplier options of None \<Rightarrow> 2 | Some m \<Rightarrow> m)"

text \<open>The state at the first test of the loop: \<^verbatim>\<open>attempt = 0\<close>, \<^verbatim>\<open>lastError\<close> unassigned,
  \<^verbatim>\<open>delay = initialDelay\<close>.\<close>

definition retry_init :: "RetryOptions \<Rightarrow> 's \<Rightarrow> 's retry_state" where
  "retry_init options s =
     \<lparr>attempt = 0, lastError = Undefined, delay = initialDelay_of options, world = s\<rparr>"

definition retry_run ::
  "(real \<Rightarrow> 's \<Rightarrow> 's) \<Rightarrow> ('s, 'a) io \<Rightarrow> RetryOptions \<Rightarrow> 's \<Rightarrow> 'a retry_exit \<times> 's" where
  "retry_run setTimeout callback options s =
     retry_loop setTimeout callback (maxRetries options) (maxDelay_of options)
       (backoffMultiplier_of options) (retry_init options s)"

text \<open>How the promise returned by \<^verbatim>\<open>retry\<close> settles.\<close>

fun settle :: "'a retry_exit \<Rightarrow> thrown + 'a" where
  "settle (Return result) = Inr result"
| "settle (ThrowInLoop e) = Inl e"
| "settle (ThrowAfterLoop e) = Inl e"

definition retry :: "(real \<Rightarrow> 's \<Rightarrow> 's) \<Rightarrow> ('s, 'a) io \<Rightarrow> RetryOptions \<Rightarrow> ('s, 'a) io" where
  "retry setTimeout callback options =
     (\<lambda>s. case retry_run setTimeout callback options s of (out, s') \<Rightarrow> (settle out, s'))"

subsection \<open>Observing a run of retry\<close>

text \<open>
  To count the calls of the operation and to read the waits between them, \<^verbatim>\<open>retry\<close> is
  run on a callback and a timer that record what they are asked to do, as a test double
  would: the record is a second component of the world that the callback and the timer under
  observation never see.
\<close>

datatype probe = Attempted "thrown option" | Slept real

definition spy_callback :: "('s, 'a) io \<Rightarrow> ('s \<times> probe list, 'a) io" where
  "spy_callback callback =
     (\<lambda>(s, tr). case callback s of
        (r, s') \<Rightarrow> (r, (s', tr @ [Attempted (case r of Inl e \<Rightarrow> Some e | Inr _ \<Rightarrow> None)])))"

definition spy_setTimeout ::
  "(real \<Rightarrow> 's \<Rightarrow> 's) \<Rightarrow> real \<Rightarrow> 's \<times> probe list \<Rightarrow> 's \<times> probe list" where
  "spy_setTimeout setTimeout ms = (\<lambda>(s, tr). (setTimeout ms s, tr @ [Slept ms]))"

definition retry_log ::
  "(real \<Rightarrow> 's \<Rightarrow> 's) \<Rightarrow> ('s, 'a) io \<Rightarrow> RetryOptions \<Rightarrow> 's \<Rightarrow> probe list" where
  "retry_log setTimeout callback options s =
     snd (snd (retry (spy_setTimeout setTimeout) (spy_callback callback) options (s, [])))"

text \<open>The outcomes of the calls of the operation, in order: \<open>None\<close> for a result,
  \<open>Some e\<close> for the error \<open>e\<close>.\<close>

fun attempts :: "probe list \<Rightarrow> thrown option list" where
  "attempts [] = []"
| "attempts (Attempted x # tr) = x # attempts tr"
| "attempts (Slept ms # tr) = attempts tr"


text \<open>The record that the loop is expected to leave when the calls of the operation have the
  outcomes \<open>os\<close>: a call, then for each further call the wait \<open>min d c\<close> and the call, the
  nominal delay \<open>d\<close> growing by the factor \<open>m\<close> from one wait to the next.\<close>

fun schedule :: "real \<Rightarrow> real \<Rightarrow> real \<Rightarrow> thrown option list \<Rightarrow> probe list" where
  "schedule d m c [] = []"
| "schedule d m c [x] = [Attempted x]"
| "schedule d m c (x # y # ys) = Attempted x # Slept (min d c) # schedule (d * m) m c (y # ys)"

text \<open>Forgetting the record.\<close>

definition unspy :: "('s \<times> probe list) retry_state \<Rightarrow> 's retry_state" where
  "unspy st = \<lparr>attempt = attempt st, lastError = lastError st, delay = delay st,
               world = fst (world st)\<rparr>"

subsection \<open>Operations and timers for concrete runs\<close>

text \<open>An operation that fails at every call, with an error that tells the calls apart; the
  world is the number of calls made so far.\<close>

definition failing_operation :: "(nat, unit) io" where
  "failing_operation n = (Inl (Error (replicate n CHR ''x'')), Suc n)"

text \<open>An operation that fails twice and then returns the number of earlier calls.\<close>

definition third_time_lucky :: "(nat, nat) io" where
  "third_time_lucky n = (if n < 2 then Inl (Error ''not yet'') else Inr n, Suc n)"

definition idle_timer :: "real \<Rightarrow> nat \<Rightarrow> nat" where
  "idle_timer ms n = n"

definition example_options :: RetryOptions where
  "example_options =
     \<lparr>maxRetries = 3, initialDelay = Some 10000, maxDelay = Some 30000,
      backoffMultiplier = Some 2, debug = None\<rparr>"



section \<open>The ledger\<close>

text \<open>
  The types of \<^verbatim>\<open>@solana/web3.js\<close> and \<^verbatim>\<open>@meteora-ag/cp-amm-sdk\<close> that the source
  handles, with the fields it reads or writes. A \<^verbatim>\<open>PublicKey\<close> is its base-58 text; what
  the ledger keeps in a position state and in a transaction's instructions is opaque. The
  fields of the three argument objects carry a suffix, since two of them share field names
  with \<^verbatim>\<open>UserPosition\<close>, \<^verbatim>\<open>PoolState\<close> and the deposit quote.
\<close>

type_synonym PublicKey = string

record Keypair =
  publicKey :: PublicKey
  secretKey :: "nat list"

type_synonym PositionState = nat

record UserPosition =
  positionNftAccount :: PublicKey
  position :: PublicKey
  positionState :: PositionState

record PoolState =
  tokenAMint :: PublicKey
  tokenBMint :: PublicKey
  sqrtMinPrice :: BN
  sqrtMaxPrice :: BN
  sqrtPrice :: BN

record DepositQuote =
  liquidityDelta :: BN
  outputAmount :: BN
  actualInputAmount :: BN

record DepositQuoteParams =
  inAmount_quote :: BN
  isTokenA_quote :: bool
  minSqrtPrice_quote :: BN
  maxSqrtPrice_quote :: BN
  sqrtPrice_quote :: BN

record CreateParams =
  owner_create :: PublicKey
  pool_create :: PublicKey
  positionNft_create :: PublicKey
  liquidityDelta_create :: BN
  maxAmountTokenA_create :: BN
  maxAmountTokenB_create :: BN
  tokenAAmountThreshold_create :: BN
  tokenBAmountThreshold_create :: BN
  tokenAMint_create :: PublicKey
  tokenBMint_create :: PublicKey
  tokenAProgram_create :: PublicKey
  tokenBProgram_create :: PublicKey

record CloseParams =
  owner_close :: PublicKey
  position_close :: PublicKey
  positionNftAccount_close :: PublicKey
  poolState_close :: PoolState
  positionState_close :: PositionState
  tokenAAmountThreshold_close :: BN
  tokenBAmountThreshold_close :: BN
  vestings_close :: "nat list"
  currentPoint_close :: BN

record Blockhash =
  blockhash :: string
  lastValidBlockHeight_latest :: nat

record Transaction =
  instructions :: string
  recentBlockhash :: "string option"
  feePayer :: "PublicKey option"
  lastValidBlockHeight :: "nat option"
  signatures :: "PublicKey list"

text \<open>
  What the program asks of the outside: the calls of the SDK and of the connection, the
  timer, and \<open>connect\<close> for lines 38 to 43 of \<^verbatim>\<open>main.ts\<close> (\<^verbatim>\<open>loadEnv\<close>, the connection,
  \<^verbatim>\<open>Keypair.fromSecretKey\<close>, the SDK client), which end with the user's key pair or throw.
  Every call may change the world and, \<^verbatim>\<open>Keypair.generate\<close> and the timer apart, may throw.
\<close>

record 's ledger =
  connect :: "('s, Keypair) io"
  Keypair_generate :: "'s \<Rightarrow> Keypair \<times> 's"
  getPositionsByUser :: "PublicKey \<Rightarrow> ('s, UserPosition list) io"
  fetchPoolState :: "PublicKey \<Rightarrow> ('s, PoolState) io"
  getDepositQuote :: "DepositQuoteParams \<Rightarrow> ('s, DepositQuote) io"
  createPositionAndAddLiquidity :: "CreateParams \<Rightarrow> ('s, Transaction) io"
  removeAllLiquidityAndClosePosition :: "CloseParams \<Rightarrow> ('s, Transaction) io"
  getLatestBlockhash :: "('s, Blockhash) io"
  sendAndConfirmTransaction :: "Transaction \<Rightarrow> Keypair list \<Rightarrow> ('s, string) io"
  setTimeout :: "real \<Rightarrow> 's \<Rightarrow> 's"

subsection \<open>consts.ts\<close>

definition SOL_USDC_POOL_PK :: PublicKey where
  "SOL_USDC_POOL_PK = ''8Pm2kZpnxD3hoMmt4bjStX2Pw2Z9abpbHzZxMPqxPmie''"

definition SLIPPAGE_BPS :: int where
  "SLIPPAGE_BPS = 100"

definition DEPOSIT_AMOUNT :: BN where
  "DEPOSIT_AMOUNT = 1000000"

definition MAX_TOKEN_A_AMOUNT :: BN where
  "MAX_TOKEN_A_AMOUNT = 10000000"

definition ZERO_SLIPPAGE_THRESHOLD :: BN where
  "ZERO_SLIPPAGE_THRESHOLD = 0"

text \<open>\<^verbatim>\<open>TOKEN_PROGRAM_ID\<close> of \<^verbatim>\<open>@solana/spl-token\<close>.\<close>

definition TOKEN_PROGRAM_ID :: PublicKey where
  "TOKEN_PROGRAM_ID = ''TokenkegQfeZyiNwAJbNbGKPFXCWuBvf9Ss623VQ5DA''"

subsection \<open>helpers.ts\<close>

text \<open>The decimal text of a number, as a template literal inserts it.\<close>

definition digit :: "nat \<Rightarrow> char" where
  "digit d = char_of (48 + d)"

fun decimal :: "nat \<Rightarrow> string" where
  "decimal n = (if n < 10 then [digit n] else decimal (n div 10) @ [digit (n mod 10)])"

declare decimal.simps [simp del]

text \<open>The transaction is changed in place and returned; \<^verbatim>\<open>sign\<close> is taken to succeed.\<close>

definition prepareAndSignTransaction ::
  "'s ledger \<Rightarrow> Transaction \<Rightarrow> Keypair \<Rightarrow> Keypair list \<Rightarrow> ('s, Transaction) io" where
  "prepareAndSignTransaction L transaction payer signers =
     io_bind (getLatestBlockhash L) (\<lambda>latest.
       io_return (transaction
         \<lparr>recentBlockhash := Some (blockhash latest),
          feePayer := Some (publicKey payer),
          lastValidBlockHeight := Some (lastValidBlockHeight_latest latest),
          signatures := map publicKey signers\<rparr>))"

text \<open>\<^verbatim>\<open>createPosition\<close> up to the confirmation of the write (to the line that logs the
  signature).\<close>

definition createPosition_write ::
  "'s ledger \<Rightarrow> Keypair \<Rightarrow> PoolState \<Rightarrow> DepositQuote \<Rightarrow> ('s, string) io" where
  "createPosition_write L user poolState depositQuote =
     (\<lambda>s. case Keypair_generate L s of
        (positionNft, s1) \<Rightarrow>
          io_bind (createPositionAndAddLiquidity L
            \<lparr>owner_create = publicKey user,
             pool_create = SOL_USDC_POOL_PK,
             positionNft_create = publicKey positionNft,
             liquidityDelta_create = liquidityDelta depositQuote,
             maxAmountTokenA_create = MAX_TOKEN_A_AMOUNT,
             maxAmountTokenB_create = outputAmount depositQuote,
             tokenAAmountThreshold_create =
               addSlippage (actualInputAmount depositQuote) SLIPPAGE_BPS,
             tokenBAmountThreshold_create = addSlippage (outputAmount depositQuote) SLIPPAGE_BPS,
             tokenAMint_create = tokenAMint poolState,
             tokenBMint_create = tokenBMint poolState,
             tokenAProgram_create = TOKEN_PROGRAM_ID,
             tokenBProgram_create = TOKEN_PROGRAM_ID\<rparr>) (\<lambda>createPositionTx.
          io_bind (prepareAndSignTransaction L createPositionTx user [user, positionNft])
            (\<lambda>signedTx.
          sendAndConfirmTransaction L signedTx [user, positionNft])) s1)"

text \<open>The callback that \<^verbatim>\<open>createPosition\<close> hands to \<^verbatim>\<open>retry\<close>.\<close>

definition read_created_position :: "'s ledger \<Rightarrow> Keypair \<Rightarrow> ('s, UserPosition) io" where
  "read_created_position L user =
     io_bind (getPositionsByUser L (publicKey user)) (\<lambda>userPositions.
       if length userPositions = 0 then io_throw (Error ''Position not found after creation'')
       else io_return (userPositions ! 0))"

text \<open>The two copies of \<^verbatim>\<open>helpers.ts\<close> under \<^verbatim>\<open>src/\<close> differ, comments apart, in one
  constant: \<^verbatim>\<open>maxRetries: 8\<close> in the first, \<^verbatim>\<open>maxRetries: 3\<close> in the second. The body is
  written once, with that constant as a parameter.\<close>

definition createPosition_with ::
  "int \<Rightarrow> 's ledger \<Rightarrow> Keypair \<Rightarrow> PoolState \<Rightarrow> DepositQuote \<Rightarrow> ('s, UserPosition) io" where
  "createPosition_with budget L user poolState depositQuote =
     io_bind (createPosition_write L user poolState depositQuote) (\<lambda>signature.
       retry (setTimeout L) (read_created_position L user)
         \<lparr>maxRetries = budget, initialDelay = Some 1000, maxDelay = Some 30000,
          backoffMultiplier = Some 2, debug = None\<rparr>)"

definition createPosition ::
  "'s ledger \<Rightarrow> Keypair \<Rightarrow> PoolState \<Rightarrow> DepositQuote \<Rightarrow> ('s, UserPosition) io" where
  "createPosition = createPosition_with 8"

definition createPosition_second_copy ::
  "'s ledger \<Rightarrow> Keypair \<Rightarrow> PoolState \<Rightarrow> DepositQuote \<Rightarrow> ('s, UserPosition) io" where
  "createPosition_second_copy = createPosition_with 3"

text \<open>\<^verbatim>\<open>closePosition\<close> up to the confirmation of the write.\<close>

definition closePosition_write ::
  "'s ledger \<Rightarrow> Keypair \<Rightarrow> UserPosition \<Rightarrow> PoolState \<Rightarrow> ('s, string) io" where
  "closePosition_write L user pos poolState =
     io_bind (removeAllLiquidityAndClosePosition L
       \<lparr>owner_close = publicKey user,
        position_close = position pos,
        positionNftAccount_close = positionNftAccount pos,
        poolState_close = poolState,
        positionState_close = positionState pos,
        tokenAAmountThreshold_close = ZERO_SLIPPAGE_THRESHOLD,
        tokenBAmountThreshold_close = ZERO_SLIPPAGE_THRESHOLD,
        vestings_close = [],
        currentPoint_close = 0\<rparr>) (\<lambda>closePositionTx.
     io_bind (prepareAndSignTransaction L closePositionTx user [user]) (\<lambda>signedTx.
     sendAndConfirmTransaction L signedTx [user]))"

definition closePosition ::
  "'s ledger \<Rightarrow> Keypair \<Rightarrow> UserPosition \<Rightarrow> PoolState \<Rightarrow> ('s, unit) io" where
  "closePosition L user pos poolState =
     io_bind (closePosition_write L user pos poolState) (\<lambda>signature.
     io_bind (getPositionsByUser L (publicKey user)) (\<lambda>userPositions.
       if length userPositions > 0 then
         io_throw (Error (''Position still exists after close attempt. Found ''
           @ decimal (length userPositions) @ '' position(s)''))
       else io_return ()))"

subsection \<open>main.ts\<close>

text \<open>The body of the \<^verbatim>\<open>try\<close> block: one run. \<^verbatim>\<open>position\<close> is
  \<^verbatim>\<open>UserPosition | undefined\<close>, hence an option.\<close>

definition main_body :: "'s ledger \<Rightarrow> ('s, unit) io" where
  "main_body L =
     io_bind (connect L) (\<lambda>user.
     io_bind (getPositionsByUser L (publicKey user)) (\<lambda>userPositions.
     io_bind
       (if length userPositions > 0 then io_return (Some (userPositions ! 0))
        else
          io_bind (fetchPoolState L SOL_USDC_POOL_PK) (\<lambda>poolState.
          io_bind (getDepositQuote L
            \<lparr>inAmount_quote = DEPOSIT_AMOUNT,
             isTokenA_quote = True,
             minSqrtPrice_quote = sqrtMinPrice poolState,
             maxSqrtPrice_quote = sqrtMaxPrice poolState,
             sqrtPrice_quote = sqrtPrice poolState\<rparr>) (\<lambda>depositQuote.
          io_bind (createPosition L user poolState depositQuote) (\<lambda>created.
          io_return (Some created))))) (\<lambda>found.
     case found of
       None \<Rightarrow> io_throw (Error ''Failed to obtain position'')
     | Some pos \<Rightarrow>
         io_bind (sleep (setTimeout L) 1000) (\<lambda>_.
         io_bind (fetchPoolState L SOL_USDC_POOL_PK) (\<lambda>poolState.
         closePosition L user pos poolState)))))"

text \<open>\<^verbatim>\<open>main\<close>: a failed run ends the process with exit code 1; a successful one ends it
  with 0 unless \<^verbatim>\<open>--loop\<close> was given, and then the next run starts. In loop mode the
  function returns only when a run fails.\<close>

partial_function (option) main :: "'s ledger \<Rightarrow> bool \<Rightarrow> 's \<Rightarrow> (int \<times> 's) option" where
  "main L loop s =
     (case main_body L s of
        (Inl e, s') \<Rightarrow> Some (1, s')
      | (Inr u, s') \<Rightarrow> if \<not> loop then Some (0, s') else main L loop s')"

subsection \<open>Observing the calls\<close>

text \<open>A ledger that records each call it receives, with the arguments and the answer, in a
  second component of the world; the ledger under observation never sees the record.\<close>

datatype call =
    Connect "thrown + Keypair"
  | KeypairGenerate Keypair
  | GetPositionsByUser PublicKey "thrown + UserPosition list"
  | FetchPoolState PublicKey "thrown + PoolState"
  | GetDepositQuote DepositQuoteParams "thrown + DepositQuote"
  | CreatePositionAndAddLiquidity CreateParams "thrown + Transaction"
  | RemoveAllLiquidityAndClosePosition CloseParams "thrown + Transaction"
  | GetLatestBlockhash "thrown + Blockhash"
  | SendAndConfirmTransaction Transaction "Keypair list" "thrown + string"
  | SetTimeout real

definition recorded :: "('r \<Rightarrow> call) \<Rightarrow> ('s \<Rightarrow> 'r \<times> 's) \<Rightarrow> 's \<times> call list \<Rightarrow> 'r \<times> 's \<times> call list" where
  "recorded ev f = (\<lambda>(s, tr). case f s of (r, s') \<Rightarrow> (r, (s', tr @ [ev r])))"

definition spy_ledger :: "'s ledger \<Rightarrow> ('s \<times> call list) ledger" where
  "spy_ledger L =
     \<lparr>connect = recorded Connect (connect L),
      Keypair_generate = recorded KeypairGenerate (Keypair_generate L),
      getPositionsByUser = (\<lambda>owner. recorded (GetPositionsByUser owner) (getPositionsByUser L owner)),
      fetchPoolState = (\<lambda>pool. recorded (FetchPoolState pool) (fetchPoolState L pool)),
      getDepositQuote = (\<lambda>params. recorded (GetDepositQuote params) (getDepositQuote L params)),
      createPositionAndAddLiquidity =
        (\<lambda>params. recorded (CreatePositionAndAddLiquidity params)
           (createPositionAndAddLiquidity L params)),
      removeAllLiquidityAndClosePosition =
        (\<lambda>params. recorded (RemoveAllLiquidityAndClosePosition params)
           (removeAllLiquidityAndClosePosition L params)),
      getLatestBlockhash = recorded GetLatestBlockhash (getLatestBlockhash L),
      sendAndConfirmTransaction =
        (\<lambda>tx signers. recorded (SendAndConfirmTransaction tx signers)
           (sendAndConfirmTransaction L tx signers)),
      setTimeout = (\<lambda>ms (s, tr). (setTimeout L ms s, tr @ [SetTimeout ms]))\<rparr>"

text \<open>Readings of the record: the argument objects of the close and create requests, the
  deposit quotes asked for, the answers to the reads of the owner's positions.\<close>

fun close_requests :: "call list \<Rightarrow> CloseParams list" where
  "close_requests [] = []"
| "close_requests (RemoveAllLiquidityAndClosePosition p r # tr) = p # close_requests tr"
| "close_requests (ev # tr) = close_requests tr"

fun create_requests :: "call list \<Rightarrow> CreateParams list" where
  "create_requests [] = []"
| "create_requests (CreatePositionAndAddLiquidity p r # tr) = p # create_requests tr"
| "create_requests (ev # tr) = create_requests tr"

fun quote_requests :: "call list \<Rightarrow> DepositQuoteParams list" where
  "quote_requests [] = []"
| "quote_requests (GetDepositQuote p r # tr) = p # quote_requests tr"
| "quote_requests (ev # tr) = quote_requests tr"

fun position_reads :: "call list \<Rightarrow> (thrown + UserPosition list) list" where
  "position_reads [] = []"
| "position_reads (GetPositionsByUser owner r # tr) = r # position_reads tr"
| "position_reads (ev # tr) = position_reads tr"

fun sent :: "call list \<Rightarrow> (Transaction \<times> Keypair list) list" where
  "sent [] = []"
| "sent (SendAndConfirmTransaction tx signers r # tr) = (tx, signers) # sent tr"
| "sent (ev # tr) = sent tr"

text \<open>The argument object that \<^verbatim>\<open>closePosition\<close> is expected to build, the transaction as
  \<^verbatim>\<open>prepareAndSignTransaction\<close> leaves it, and what the callback of \<^verbatim>\<open>createPosition\<close>
  makes of the answer to a read.\<close>

definition close_request :: "Keypair \<Rightarrow> UserPosition \<Rightarrow> PoolState \<Rightarrow> CloseParams" where
  "close_request user pos poolState =
     \<lparr>owner_close = publicKey user,
      position_close = position pos,
      positionNftAccount_close = positionNftAccount pos,
      poolState_close = poolState,
      positionState_close = positionState pos,
      tokenAAmountThreshold_close = 0,
      tokenBAmountThreshold_close = 0,
      vestings_close = [],
      currentPoint_close = 0\<rparr>"

definition signed_by :: "Transaction \<Rightarrow> Blockhash \<Rightarrow> Keypair \<Rightarrow> Keypair list \<Rightarrow> Transaction" where
  "signed_by tx latest payer signers =
     tx\<lparr>recentBlockhash := Some (blockhash latest),
        feePayer := Some (publicKey payer),
        lastValidBlockHeight := Some (lastValidBlockHeight_latest latest),
        signatures := map publicKey signers\<rparr>"

fun read_outcome :: "thrown + UserPosition list \<Rightarrow> thrown + UserPosition" where
  "read_outcome (Inl e) = Inl e"
| "read_outcome (Inr []) = Inl (Error ''Position not found after creation'')"
| "read_outcome (Inr (p # ps)) = Inr p"

text \<open>Reading a decimal text back.\<close>

definition undecimal :: "string \<Rightarrow> nat" where
  "undecimal cs = foldl (\<lambda>acc ch. 10 * acc + (of_char ch - 48)) 0 cs"

subsection \<open>A ledger for concrete runs\<close>

text \<open>
  A small ledger in the manner of a test stub. Its world counts the reads of the owner's
  positions; a position created by a confirmed write shows up in the reads only from the
  third read after the write; a confirmed close removes every position when
  \<open>close_effective\<close> holds and does nothing otherwise.
\<close>

record stub_world =
  reads :: nat
  held :: "UserPosition list"
  visible_from :: nat
  close_effective :: bool

definition alice :: Keypair where
  "alice = \<lparr>publicKey = ''alice'', secretKey = []\<rparr>"

definition stub_pool :: PoolState where
  "stub_pool = \<lparr>tokenAMint = ''SOL'', tokenBMint = ''USDC'', sqrtMinPrice = 1,
                sqrtMaxPrice = 1000, sqrtPrice = 30\<rparr>"

definition stub_position :: UserPosition where
  "stub_position = \<lparr>positionNftAccount = ''nft-account'', position = ''position-1'',
                    positionState = 7\<rparr>"

definition unsigned :: "string \<Rightarrow> Transaction" where
  "unsigned what = \<lparr>instructions = what, recentBlockhash = None, feePayer = None,
                    lastValidBlockHeight = None, signatures = []\<rparr>"

definition stub_ledger :: "stub_world ledger" where
  "stub_ledger =
     \<lparr>connect = (\<lambda>w. (Inr alice, w)),
      Keypair_generate = (\<lambda>w. (\<lparr>publicKey = ''nft'', secretKey = []\<rparr>, w)),
      getPositionsByUser =
        (\<lambda>owner w. (Inr (if reads w < visible_from w then [] else held w),
                    w\<lparr>reads := Suc (reads w)\<rparr>)),
      fetchPoolState = (\<lambda>pool w. (Inr stub_pool, w)),
      getDepositQuote =
        (\<lambda>params w. (Inr \<lparr>liquidityDelta = 5, outputAmount = 2000000,
                            actualInputAmount = inAmount_quote params\<rparr>, w)),
      createPositionAndAddLiquidity = (\<lambda>params w. (Inr (unsigned ''create''), w)),
      removeAllLiquidityAndClosePosition = (\<lambda>params w. (Inr (unsigned ''close''), w)),
      getLatestBlockhash =
        (\<lambda>w. (Inr \<lparr>blockhash = ''recent'', lastValidBlockHeight_latest = 100\<rparr>, w)),
      sendAndConfirmTransaction =
        (\<lambda>tx signers w. (Inr ''signature'',
           if instructions tx = ''create''
           then w\<lparr>held := held w @ [stub_position], visible_from := reads w + 2\<rparr>
           else if close_effective w then w\<lparr>held := []\<rparr> else w)),
      setTimeout = (\<lambda>ms w. w)\<rparr>"

definition no_position :: stub_world where
  "no_position = \<lparr>reads = 0, held = [], visible_from = 0, close_effective = True\<rparr>"

definition one_position :: stub_world where
  "one_position = \<lparr>reads = 0, held = [stub_position], visible_from = 0, close_effective = True\<rparr>"

definition stuck_position :: stub_world where
  "stuck_position =
     \<lparr>reads = 0, held = [stub_position, stub_position], visible_from = 0,
      close_effective = False\<rparr>"

definition stub_quote :: DepositQuote where
  "stub_quote = \<lparr>liquidityDelta = 5, outputAmount = 2000000, actualInputAmount = 1000000\<rparr>"

section \<open>Properties of addSlippage\<close>




section \<open>Properties of retry\<close>

lemma attempts_append: "attempts (xs @ ys) = attempts xs @ attempts ys"
  by (induction xs rule: attempts.induct) auto

lemma attempts_schedule: "attempts (schedule d m c os) = os"
  by (induction d m c os rule: schedule.induct) auto




text \<open>The loop under observation, from any state in which another attempt is allowed.\<close>

lemma retry_loop_spied:
  assumes "retry_loop (spy_setTimeout T) (spy_callback cb) M c m st = (out, (s', tr'))"
    and "attempt st \<le> M"
  shows "\<exists>os. tr' = snd (world st) @ schedule (delay st) m c os \<and> os \<noteq> []
     \<and> length os \<le> nat (M + 1 - attempt st)
     \<and> (\<forall>x \<in> set (butlast os). x \<noteq> None)
     \<and> (case out of Return r \<Rightarrow> last os = None
         | ThrowInLoop e \<Rightarrow> last os = Some e \<and> length os = nat (M + 1 - attempt st)
         | ThrowAfterLoop e \<Rightarrow> False)"
  using assms
proof (induction "spy_setTimeout T" "spy_callback cb" M c m st rule: retry_loop.induct)
  case (1 M c m st)
  obtain s tr where w: "world st = (s, tr)" by (cases "world st")
  obtain r s1 where cb: "cb s = (r, s1)" by (cases "cb s")
  show ?case
  proof (cases r)
    case (Inr v)
    with 1(2,3) w cb have "out = Return v" "tr' = tr @ [Attempted None]"
      by (auto simp: retry_loop.simps[of _ _ _ _ _ st] retry_body_def spy_callback_def)
    then show ?thesis using w 1(3)
      by (intro exI[of _ "[None]"]) auto
  next
    case (Inl e)
    show ?thesis
    proof (cases "attempt st = M")
      case True
      with 1(2,3) w cb Inl have "out = ThrowInLoop e" "tr' = tr @ [Attempted (Some e)]"
        by (auto simp: retry_loop.simps[of _ _ _ _ _ st] retry_body_def spy_callback_def)
      then show ?thesis using w True
        by (intro exI[of _ "[Some e]"]) auto
    next
      case False
      define st' where "st' = \<lparr>attempt = attempt st + 1, lastError = e, delay = delay st * m,
         world = (T (min (delay st) c) s1, tr @ [Attempted (Some e), Slept (min (delay st) c)])\<rparr>"
      have body: "retry_body (spy_setTimeout T) (spy_callback cb) M c m st = Inr st'"
        using w cb Inl False
        by (simp add: retry_body_def spy_callback_def spy_setTimeout_def sleep_def st'_def)
      have le': "attempt st' \<le> M" using False 1(3) by (simp add: st'_def)
      have run: "retry_loop (spy_setTimeout T) (spy_callback cb) M c m st' = (out, (s', tr'))"
        using 1(2,3) body by (simp add: retry_loop.simps[of _ _ _ _ _ st])
      from 1(1)[OF 1(3) body run le'] obtain os where os:
        "tr' = snd (world st') @ schedule (delay st') m c os" "os \<noteq> []"
        "length os \<le> nat (M + 1 - attempt st')" "\<forall>x \<in> set (butlast os). x \<noteq> None"
        "(case out of Return r \<Rightarrow> last os = None
         | ThrowInLoop e \<Rightarrow> last os = Some e \<and> length os = nat (M + 1 - attempt st')
         | ThrowAfterLoop e \<Rightarrow> False)" by blast
      obtain y ys where ys: "os = y # ys" using os(2) by (cases os) auto
      have "tr' = snd (world st) @ schedule (delay st) m c (Some e # os)"
        using os(1) w ys by (simp add: st'_def)
      moreover have "length (Some e # os) \<le> nat (M + 1 - attempt st)"
        using os(3) le' by (simp add: st'_def)
      moreover have "\<forall>x \<in> set (butlast (Some e # os)). x \<noteq> None"
        using os(4) os(2) by simp
      moreover have "(case out of Return r \<Rightarrow> last (Some e # os) = None
         | ThrowInLoop e' \<Rightarrow> last (Some e # os) = Some e'
              \<and> length (Some e # os) = nat (M + 1 - attempt st)
         | ThrowAfterLoop e \<Rightarrow> False)"
        using os(5) os(2) le' by (auto simp: st'_def split: retry_exit.splits)
      ultimately show ?thesis by (intro exI[of _ "Some e # os"]) simp
    qed
  qed
qed

text \<open>Observation does not change what the loop does.\<close>

lemma retry_body_unspy:
  "retry_body T cb M c m (unspy st) =
     (case retry_body (spy_setTimeout T) (spy_callback cb) M c m st of
        Inl (out, w) \<Rightarrow> Inl (out, fst w) | Inr st' \<Rightarrow> Inr (unspy st'))"
  by (cases "world st")
     (auto simp: retry_body_def unspy_def spy_callback_def spy_setTimeout_def sleep_def
       split: prod.splits sum.splits)

lemma retry_loop_unspy:
  "retry_loop T cb M c m (unspy st) =
     (case retry_loop (spy_setTimeout T) (spy_callback cb) M c m st of (out, w) \<Rightarrow> (out, fst w))"
proof (induction "spy_setTimeout T" "spy_callback cb" M c m st rule: retry_loop.induct)
  case (1 M c m st)
  show ?case
  proof (cases "attempt st \<le> M")
    case False
    then show ?thesis
      by (simp add: retry_loop.simps[of _ _ _ _ _ st] retry_loop.simps[of _ _ _ _ _ "unspy st"])
         (simp add: unspy_def)
  next
    case True
    then have a: "attempt (unspy st) \<le> M" by (simp add: unspy_def)
    show ?thesis
    proof (cases "retry_body (spy_setTimeout T) (spy_callback cb) M c m st")
      case (Inl p)
      then show ?thesis using True a
        by (simp add: retry_loop.simps[of _ _ _ _ _ st] retry_loop.simps[of _ _ _ _ _ "unspy st"]
            retry_body_unspy split: prod.splits)
    next
      case (Inr st')
      from 1[OF True Inr] Inr True a show ?thesis
        by (simp add: retry_loop.simps[of _ _ _ _ _ st] retry_loop.simps[of _ _ _ _ _ "unspy st"]
            retry_body_unspy)
    qed
  qed
qed

lemma retry_init_sel:
  "attempt (retry_init options w) = 0"
  "lastError (retry_init options w) = Undefined"
  "delay (retry_init options w) = initialDelay_of options"
  "world (retry_init options w) = w"
  by (simp_all add: retry_init_def)

lemma unspy_init: "unspy (retry_init options (s, tr)) = retry_init options s"
  by (simp add: unspy_def retry_init_def)

lemma retry_run_unspy:
  "retry_run T cb options s =
     (case retry_run (spy_setTimeout T) (spy_callback cb) options (s, []) of
        (out, w) \<Rightarrow> (out, fst w))"
  using retry_loop_unspy[of T cb "maxRetries options" "maxDelay_of options"
      "backoffMultiplier_of options" "retry_init options (s, [])"]
  by (simp add: retry_run_def unspy_init)

lemma retry_run_spied_log:
  "snd (snd (retry_run (spy_setTimeout T) (spy_callback cb) options (s, []))) =
     retry_log T cb options s"
  by (simp add: retry_log_def retry_def split: prod.splits)

text \<open>What a run leaves in the record, and how it ends, when at least one attempt is allowed.\<close>

lemma retry_log_shape:
  assumes "0 \<le> maxRetries options"
  shows "\<exists>os. retry_log T cb options s =
              schedule (initialDelay_of options) (backoffMultiplier_of options)
                (maxDelay_of options) os
     \<and> os \<noteq> [] \<and> int (length os) \<le> maxRetries options + 1
     \<and> (\<forall>x \<in> set (butlast os). x \<noteq> None)
     \<and> (case fst (retry_run T cb options s) of
           Return r \<Rightarrow> last os = None
         | ThrowInLoop e \<Rightarrow> last os = Some e \<and> int (length os) = maxRetries options + 1
         | ThrowAfterLoop e \<Rightarrow> False)"
proof -
  obtain out s' tr' where run:
    "retry_run (spy_setTimeout T) (spy_callback cb) options (s, []) = (out, (s', tr'))"
    by (metis surj_pair)
  have log: "retry_log T cb options s = tr'"
    using retry_run_spied_log[of T cb options s] run by simp
  have out: "fst (retry_run T cb options s) = out"
    using retry_run_unspy[of T cb options s] run by simp
  from run have loop: "retry_loop (spy_setTimeout T) (spy_callback cb) (maxRetries options)
      (maxDelay_of options) (backoffMultiplier_of options) (retry_init options (s, []))
      = (out, (s', tr'))"
    by (simp add: retry_run_def)
  have a0: "attempt (retry_init options (s, [])) \<le> maxRetries options"
    using assms by (simp add: retry_init_def)
  have "\<exists>os. tr' = schedule (initialDelay_of options) (backoffMultiplier_of options)
                (maxDelay_of options) os
     \<and> os \<noteq> [] \<and> length os \<le> nat (maxRetries options + 1)
     \<and> (\<forall>x \<in> set (butlast os). x \<noteq> None)
     \<and> (case out of Return r \<Rightarrow> last os = None
         | ThrowInLoop e \<Rightarrow> last os = Some e \<and> length os = nat (maxRetries options + 1)
         | ThrowAfterLoop e \<Rightarrow> False)"
    using retry_loop_spied[OF loop a0] unfolding retry_init_sel diff_zero snd_conv append_Nil by simp
  then obtain os where
    "tr' = schedule (initialDelay_of options) (backoffMultiplier_of options)
                (maxDelay_of options) os"
    "os \<noteq> []" "length os \<le> nat (maxRetries options + 1)"
    "\<forall>x \<in> set (butlast os). x \<noteq> None"
    "(case out of Return r \<Rightarrow> last os = None
         | ThrowInLoop e \<Rightarrow> last os = Some e \<and> length os = nat (maxRetries options + 1)
         | ThrowAfterLoop e \<Rightarrow> False)"
    by blast
  then show ?thesis using log out assms
    by (intro exI[of _ os]) (auto split: retry_exit.splits)
qed





lemmas retry_eval = retry_log_def retry_def retry_run_def retry_init_def retry_loop.simps
  retry_body_def sleep_def spy_callback_def spy_setTimeout_def initialDelay_of_def maxDelay_of_def
  backoffMultiplier_of_def

lemma example_log:
  "retry_log idle_timer failing_operation example_options 0 =
     [Attempted (Some (Error '''')), Slept 10000, Attempted (Some (Error ''x'')), Slept 20000,
      Attempted (Some (Error ''xx'')), Slept 30000, Attempted (Some (Error ''xxx''))]"
  by (simp add: retry_eval idle_timer_def failing_operation_def example_options_def)


lemma example_success:
  "retry idle_timer third_time_lucky example_options 0 = (Inr 2, 3)
   \<and> retry_log idle_timer third_time_lucky example_options 0 =
       [Attempted (Some (Error ''not yet'')), Slept 10000,
        Attempted (Some (Error ''not yet'')), Slept 20000, Attempted None]"
  by (simp add: retry_eval idle_timer_def third_time_lucky_def example_options_def)

lemma retry_settles: "retry T cb options s =
   (settle (fst (retry_run T cb options s)), snd (retry_run T cb options s))"
  by (simp add: retry_def split: prod.splits)



text \<open>
  C2. With \<open>maxRetries \<ge> 0\<close>, when every call of the operation made by the run fails,
  \<^verbatim>\<open>retry\<close> has made \<open>maxRetries + 1\<close> calls and rejects with the error of the last one.
\<close>

theorem retry_rejects_with_last_error:
  assumes "0 \<le> maxRetries options"
    and "\<forall>x \<in> set (attempts (retry_log T cb options s)). x \<noteq> None"
  shows "\<exists>e. fst (retry T cb options s) = Inl e
     \<and> last (attempts (retry_log T cb options s)) = Some e
     \<and> int (length (attempts (retry_log T cb options s))) = maxRetries options + 1"
proof -
  from retry_log_shape[OF assms(1), of T cb s] obtain os where
    shape: "retry_log T cb options s =
              schedule (initialDelay_of options) (backoffMultiplier_of options)
                (maxDelay_of options) os" and ne: "os \<noteq> []"
    and out: "(case fst (retry_run T cb options s) of
           Return r \<Rightarrow> last os = None
         | ThrowInLoop e \<Rightarrow> last os = Some e \<and> int (length os) = maxRetries options + 1
         | ThrowAfterLoop e \<Rightarrow> False)" by blast
  have att: "attempts (retry_log T cb options s) = os" by (simp add: shape attempts_schedule)
  have "last os \<noteq> None" using assms(2) ne unfolding att by (metis last_in_set)
  with out obtain e where "fst (retry_run T cb options s) = ThrowInLoop e"
    "last os = Some e" "int (length os) = maxRetries options + 1"
    by (cases "fst (retry_run T cb options s)") auto
  then show ?thesis unfolding att by (simp add: retry_settles)
qed

theorem retry_rejects_with_last_error_witness:
  "0 \<le> maxRetries example_options
   \<and> attempts (retry_log idle_timer failing_operation example_options 0) =
       [Some (Error ''''), Some (Error ''x''), Some (Error ''xx''), Some (Error ''xxx'')]
   \<and> (\<exists>e. fst (retry idle_timer failing_operation example_options 0) = Inl e
     \<and> last (attempts (retry_log idle_timer failing_operation example_options 0)) = Some e)
   \<and> fst (retry idle_timer failing_operation example_options 0) = Inl (Error ''xxx'')"
proof -
  have h1: "0 \<le> maxRetries example_options" by (simp add: example_options_def)
  have a: "attempts (retry_log idle_timer failing_operation example_options 0) =
       [Some (Error ''''), Some (Error ''x''), Some (Error ''xx''), Some (Error ''xxx'')]"
    by (simp add: example_log)
  have h2: "\<forall>x \<in> set (attempts (retry_log idle_timer failing_operation example_options 0)).
      x \<noteq> None" by (simp add: a)
  from retry_rejects_with_last_error[OF h1 h2]
  show ?thesis using h1 a by auto
qed

text \<open>
  C6. With \<open>maxRetries = 0\<close>, \<^verbatim>\<open>retry\<close> settles as the single call of the operation
  does, in the world that call leaves, and the run consists of that call alone: no wait.
\<close>

theorem retry_zero_single_attempt:
  "retry T cb (options\<lparr>maxRetries := 0\<rparr>) s = cb s
   \<and> retry_log T cb (options\<lparr>maxRetries := 0\<rparr>) s =
       [Attempted (case fst (cb s) of Inl e \<Rightarrow> Some e | Inr v \<Rightarrow> None)]"
  by (cases "cb s") (auto simp: retry_eval split: sum.splits)










section \<open>Properties of the position lifecycle\<close>

lemma close_requests_append: "close_requests (xs @ ys) = close_requests xs @ close_requests ys"
  by (induction xs rule: close_requests.induct) auto

lemma create_requests_append: "create_requests (xs @ ys) = create_requests xs @ create_requests ys"
  by (induction xs rule: create_requests.induct) auto

lemma quote_requests_append: "quote_requests (xs @ ys) = quote_requests xs @ quote_requests ys"
  by (induction xs rule: quote_requests.induct) auto

lemma position_reads_append: "position_reads (xs @ ys) = position_reads xs @ position_reads ys"
  by (induction xs rule: position_reads.induct) auto

lemma sent_append: "sent (xs @ ys) = sent xs @ sent ys"
  by (induction xs rule: sent.induct) auto

lemmas readings_append = close_requests_append create_requests_append quote_requests_append
  position_reads_append sent_append

text \<open>The calls of the recording ledger, one by one.\<close>

lemma spied_calls:
  "connect (spy_ledger L) (s, tr) =
     (case connect L s of (r, s1) \<Rightarrow> (r, (s1, tr @ [Connect r])))"
  "Keypair_generate (spy_ledger L) (s, tr) =
     (case Keypair_generate L s of (k, s1) \<Rightarrow> (k, (s1, tr @ [KeypairGenerate k])))"
  "getPositionsByUser (spy_ledger L) owner (s, tr) =
     (case getPositionsByUser L owner s of
        (r, s1) \<Rightarrow> (r, (s1, tr @ [GetPositionsByUser owner r])))"
  "fetchPoolState (spy_ledger L) pool (s, tr) =
     (case fetchPoolState L pool s of (r, s1) \<Rightarrow> (r, (s1, tr @ [FetchPoolState pool r])))"
  "getDepositQuote (spy_ledger L) q (s, tr) =
     (case getDepositQuote L q s of (r, s1) \<Rightarrow> (r, (s1, tr @ [GetDepositQuote q r])))"
  "createPositionAndAddLiquidity (spy_ledger L) cp (s, tr) =
     (case createPositionAndAddLiquidity L cp s of
        (r, s1) \<Rightarrow> (r, (s1, tr @ [CreatePositionAndAddLiquidity cp r])))"
  "removeAllLiquidityAndClosePosition (spy_ledger L) p (s, tr) =
     (case removeAllLiquidityAndClosePosition L p s of
        (r, s1) \<Rightarrow> (r, (s1, tr @ [RemoveAllLiquidityAndClosePosition p r])))"
  "getLatestBlockhash (spy_ledger L) (s, tr) =
     (case getLatestBlockhash L s of (r, s1) \<Rightarrow> (r, (s1, tr @ [GetLatestBlockhash r])))"
  "sendAndConfirmTransaction (spy_ledger L) t ks (s, tr) =
     (case sendAndConfirmTransaction L t ks s of
        (r, s1) \<Rightarrow> (r, (s1, tr @ [SendAndConfirmTransaction t ks r])))"
  "setTimeout (spy_ledger L) ms (s, tr) = (setTimeout L ms s, tr @ [SetTimeout ms])"
  by (simp_all add: spy_ledger_def recorded_def)

lemma prepareAndSignTransaction_spied:
  "prepareAndSignTransaction (spy_ledger L) tx payer signers (s, tr) =
     (case getLatestBlockhash L s of
        (Inl e, s1) \<Rightarrow> (Inl e, (s1, tr @ [GetLatestBlockhash (Inl e)]))
      | (Inr latest, s1) \<Rightarrow>
          (Inr (signed_by tx latest payer signers), (s1, tr @ [GetLatestBlockhash (Inr latest)])))"
  by (simp add: prepareAndSignTransaction_def spied_calls io_bind_def
      io_return_def signed_by_def split: prod.splits sum.splits)

lemma closePosition_write_spied:
  "closePosition_write (spy_ledger L) user pos poolState (s, tr) =
     (case removeAllLiquidityAndClosePosition L (close_request user pos poolState) s of
        (Inl e, s1) \<Rightarrow>
          (Inl e, (s1, tr @ [RemoveAllLiquidityAndClosePosition
                               (close_request user pos poolState) (Inl e)]))
      | (Inr tx, s1) \<Rightarrow>
          (case getLatestBlockhash L s1 of
             (Inl e, s2) \<Rightarrow>
               (Inl e, (s2, tr @ [RemoveAllLiquidityAndClosePosition
                                    (close_request user pos poolState) (Inr tx),
                                  GetLatestBlockhash (Inl e)]))
           | (Inr latest, s2) \<Rightarrow>
               (case sendAndConfirmTransaction L (signed_by tx latest user [user]) [user] s2 of
                  (r, s3) \<Rightarrow>
                    (r, (s3, tr @ [RemoveAllLiquidityAndClosePosition
                                     (close_request user pos poolState) (Inr tx),
                                   GetLatestBlockhash (Inr latest),
                                   SendAndConfirmTransaction (signed_by tx latest user [user])
                                     [user] r])))))"
  unfolding closePosition_write_def io_bind_def
  by (simp add: spied_calls prepareAndSignTransaction_spied close_request_def
      ZERO_SLIPPAGE_THRESHOLD_def split: prod.splits sum.splits)

lemma closePosition_spied:
  "closePosition (spy_ledger L) user pos poolState (s, tr) =
     (case closePosition_write (spy_ledger L) user pos poolState (s, tr) of
        (Inl e, w) \<Rightarrow> (Inl e, w)
      | (Inr signature, (s1, tr1)) \<Rightarrow>
          (case getPositionsByUser L (publicKey user) s1 of
             (r, s2) \<Rightarrow>
               (case r of
                  Inl e \<Rightarrow> Inl e
                | Inr userPositions \<Rightarrow>
                    if length userPositions > 0 then
                      Inl (Error (''Position still exists after close attempt. Found ''
                        @ decimal (length userPositions) @ '' position(s)''))
                    else Inr (),
                (s2, tr1 @ [GetPositionsByUser (publicKey user) r]))))"
  by (simp add: closePosition_def io_bind_def io_throw_def io_return_def spied_calls
      split: prod.splits sum.splits)

text \<open>What \<^verbatim>\<open>closePosition\<close> adds to any record.\<close>

lemma closePosition_readings:
  "close_requests (snd (snd (closePosition (spy_ledger L) user pos poolState (s, tr)))) =
     close_requests tr @ [close_request user pos poolState]"
  "create_requests (snd (snd (closePosition (spy_ledger L) user pos poolState (s, tr)))) =
     create_requests tr"
  "quote_requests (snd (snd (closePosition (spy_ledger L) user pos poolState (s, tr)))) =
     quote_requests tr"
  unfolding closePosition_spied closePosition_write_spied
  by (auto simp: readings_append split: prod.splits sum.splits)

lemma closePosition_first_call:
  "\<exists>r rest. snd (snd (closePosition (spy_ledger L) user pos poolState (s, tr))) =
     tr @ RemoveAllLiquidityAndClosePosition (close_request user pos poolState) r # rest"
  unfolding closePosition_spied closePosition_write_spied
  by (auto split: prod.splits sum.splits)

lemma closePosition_sent:
  "(tx, signers) \<in> set (sent (snd (snd (closePosition (spy_ledger L) user pos poolState
       (s, []))))) \<Longrightarrow>
     signers = [user]
     \<and> (\<exists>built s1. removeAllLiquidityAndClosePosition L (close_request user pos poolState) s
            = (Inr built, s1) \<and> instructions tx = instructions built)"
  unfolding closePosition_spied closePosition_write_spied
  by (auto simp: readings_append signed_by_def split: prod.splits sum.splits)

text \<open>
  C3. Whatever the pool state and the position, \<^verbatim>\<open>closePosition\<close> asks the SDK for one
  remove-all-liquidity-and-close transaction, as its first call, with both token thresholds
  0, \<open>vestings = []\<close> and \<open>currentPoint = 0\<close>; it asks for no deposit quote and no create
  transaction; and what it submits is that transaction, signed by the user. The thresholds
  are the constant \<^verbatim>\<open>ZERO_SLIPPAGE_THRESHOLD\<close>: no slippage is added on this path.
\<close>

theorem closePosition_zero_thresholds:
  "(let request = close_request user pos poolState;
        log = snd (snd (closePosition (spy_ledger L) user pos poolState (s, [])))
    in close_requests log = [request]
     \<and> (\<exists>r. hd log = RemoveAllLiquidityAndClosePosition request r)
     \<and> tokenAAmountThreshold_close request = 0 \<and> tokenBAmountThreshold_close request = 0
     \<and> vestings_close request = [] \<and> currentPoint_close request = 0
     \<and> create_requests log = [] \<and> quote_requests log = []
     \<and> (\<forall>tx signers. (tx, signers) \<in> set (sent log) \<longrightarrow>
           signers = [user]
         \<and> (\<exists>built s1. removeAllLiquidityAndClosePosition L request s = (Inr built, s1)
               \<and> instructions tx = instructions built)))"
proof -
  obtain r rest where "snd (snd (closePosition (spy_ledger L) user pos poolState (s, []))) =
     RemoveAllLiquidityAndClosePosition (close_request user pos poolState) r # rest"
    using closePosition_first_call[of L user pos poolState s "[]"] by auto
  then have "\<exists>r. hd (snd (snd (closePosition (spy_ledger L) user pos poolState (s, [])))) =
     RemoveAllLiquidityAndClosePosition (close_request user pos poolState) r" by simp
  then show ?thesis
    unfolding Let_def
    using closePosition_readings[of L user pos poolState s "[]"]
      closePosition_sent[of _ _ L user pos poolState s]
    by (simp add: close_request_def)
qed

theorem closePosition_zero_thresholds_witness:
  "sent (snd (snd (closePosition (spy_ledger stub_ledger) alice stub_position stub_pool
        (one_position, [])))) = [(signed_by (unsigned ''close'')
          \<lparr>blockhash = ''recent'', lastValidBlockHeight_latest = 100\<rparr> alice [alice], [alice])]
   \<and> close_requests (snd (snd (closePosition (spy_ledger stub_ledger) alice stub_position
        stub_pool (one_position, [])))) = [close_request alice stub_position stub_pool]
   \<and> tokenAAmountThreshold_close (close_request alice stub_position stub_pool) = 0
   \<and> tokenBAmountThreshold_close (close_request alice stub_position stub_pool) = 0"
proof -
  have "sent (snd (snd (closePosition (spy_ledger stub_ledger) alice stub_position stub_pool
        (one_position, [])))) = [(signed_by (unsigned ''close'')
          \<lparr>blockhash = ''recent'', lastValidBlockHeight_latest = 100\<rparr> alice [alice], [alice])]"
    by (simp add: closePosition_spied closePosition_write_spied stub_ledger_def)
  then show ?thesis
    using closePosition_zero_thresholds[of alice stub_position stub_pool stub_ledger one_position]
    unfolding Let_def by blast
qed

text \<open>The decimal text of a number determines the number.\<close>

lemma undecimal_snoc: "undecimal (cs @ [ch]) = 10 * undecimal cs + (of_char ch - 48)"
  by (simp add: undecimal_def)

lemma undecimal_digit: "d < 10 \<Longrightarrow> of_char (digit d) - 48 = d"
  by (simp add: digit_def)

lemma undecimal_decimal: "undecimal (decimal n) = n"
proof (induction n rule: decimal.induct)
  case (1 n)
  show ?case
  proof (cases "n < 10")
    case True
    then show ?thesis
      using undecimal_digit[of n] by (simp add: decimal.simps[of n] undecimal_def)
  next
    case False
    with 1 have "undecimal (decimal (n div 10)) = n div 10" by simp
    then show ?thesis
      using False undecimal_digit[of "n mod 10"]
      by (simp add: decimal.simps[of n] undecimal_snoc)
  qed
qed

text \<open>
  C4. Once the close write is confirmed, \<^verbatim>\<open>closePosition\<close> reads the owner's positions
  exactly once. An empty answer makes it return; an answer of \<open>N > 0\<close> positions makes it
  fail with the message that carries \<open>N\<close> in decimal (from which \<open>N\<close> can be read back); a
  failed read makes it fail with that error. Nothing is retried.
\<close>

theorem closePosition_verifies_once:
  assumes "closePosition_write (spy_ledger L) user pos poolState (s, tr) =
             (Inr signature, (s1, tr1))"
  shows "(let r = fst (getPositionsByUser L (publicKey user) s1);
              run = closePosition (spy_ledger L) user pos poolState (s, tr)
          in snd (snd run) = tr1 @ [GetPositionsByUser (publicKey user) r]
           \<and> (r = Inr [] \<longrightarrow> fst run = Inr ())
           \<and> (\<forall>found. r = Inr found \<and> found \<noteq> [] \<longrightarrow>
                 fst run = Inl (Error (''Position still exists after close attempt. Found ''
                   @ decimal (length found) @ '' position(s)''))
               \<and> undecimal (decimal (length found)) = length found)
           \<and> (\<forall>e. r = Inl e \<longrightarrow> fst run = Inl e))"
  unfolding Let_def closePosition_spied assms
  by (auto simp: undecimal_decimal split: prod.splits sum.splits)

theorem closePosition_verifies_once_witness:
  "closePosition_write (spy_ledger stub_ledger) alice stub_position stub_pool
       (stuck_position, []) =
     (Inr ''signature'', (stuck_position,
        [RemoveAllLiquidityAndClosePosition (close_request alice stub_position stub_pool)
           (Inr (unsigned ''close'')),
         GetLatestBlockhash (Inr \<lparr>blockhash = ''recent'', lastValidBlockHeight_latest = 100\<rparr>),
         SendAndConfirmTransaction (signed_by (unsigned ''close'')
            \<lparr>blockhash = ''recent'', lastValidBlockHeight_latest = 100\<rparr> alice [alice]) [alice]
           (Inr ''signature'')]))
   \<and> fst (getPositionsByUser stub_ledger (publicKey alice) stuck_position)
       = Inr [stub_position, stub_position]
   \<and> fst (closePosition (spy_ledger stub_ledger) alice stub_position stub_pool
        (stuck_position, [])) =
       Inl (Error ''Position still exists after close attempt. Found 2 position(s)'')
   \<and> position_reads (snd (snd (closePosition (spy_ledger stub_ledger) alice stub_position
        stub_pool (stuck_position, [])))) = [Inr [stub_position, stub_position]]"
proof -
  have w: "closePosition_write (spy_ledger stub_ledger) alice stub_position stub_pool
       (stuck_position, []) =
     (Inr ''signature'', (stuck_position,
        [RemoveAllLiquidityAndClosePosition (close_request alice stub_position stub_pool)
           (Inr (unsigned ''close'')),
         GetLatestBlockhash (Inr \<lparr>blockhash = ''recent'', lastValidBlockHeight_latest = 100\<rparr>),
         SendAndConfirmTransaction (signed_by (unsigned ''close'')
            \<lparr>blockhash = ''recent'', lastValidBlockHeight_latest = 100\<rparr> alice [alice]) [alice]
           (Inr ''signature'')]))"
    by (simp add: closePosition_write_spied stub_ledger_def stuck_position_def signed_by_def
        unsigned_def)
  have r: "fst (getPositionsByUser stub_ledger (publicKey alice) stuck_position)
       = Inr [stub_position, stub_position]"
    by (simp add: stub_ledger_def stuck_position_def)
  have d: "decimal (Suc (Suc 0)) = ''2''"
    by code_simp
  from closePosition_verifies_once[OF w, unfolded Let_def r]
  show ?thesis using w r d by (simp add: readings_append)
qed

lemma read_created_position_spied:
  "read_created_position (spy_ledger L) user (s, tr) =
     (case getPositionsByUser L (publicKey user) s of
        (r, s1) \<Rightarrow> (read_outcome r, (s1, tr @ [GetPositionsByUser (publicKey user) r])))"
proof -
  obtain r s1 where g: "getPositionsByUser L (publicKey user) s = (r, s1)"
    by (cases "getPositionsByUser L (publicKey user) s")
  show ?thesis
  proof (cases r)
    case (Inl e)
    with g show ?thesis
      by (simp add: read_created_position_def io_bind_def spied_calls)
  next
    case (Inr ps)
    with g show ?thesis
      by (cases ps)
         (simp_all add: read_created_position_def io_bind_def io_throw_def io_return_def
           spied_calls)
  qed
qed

text \<open>The loop of \<^verbatim>\<open>retry\<close> on the callback of \<^verbatim>\<open>createPosition\<close>, against the recording
  ledger, from any state in which another attempt is allowed.\<close>

lemma read_loop_spied:
  assumes "retry_loop (setTimeout (spy_ledger L)) (read_created_position (spy_ledger L) user)
             M c m st = (out, (s', tr'))"
    and "attempt st \<le> M"
  shows "\<exists>rs. position_reads tr' = position_reads (snd (world st)) @ rs \<and> rs \<noteq> []
     \<and> length rs \<le> nat (M + 1 - attempt st)
     \<and> (\<forall>r \<in> set (butlast rs). isl (read_outcome r))
     \<and> create_requests tr' = create_requests (snd (world st))
     \<and> (case out of Return p \<Rightarrow> read_outcome (last rs) = Inr p
         | ThrowInLoop e \<Rightarrow> read_outcome (last rs) = Inl e
              \<and> length rs = nat (M + 1 - attempt st)
         | ThrowAfterLoop e \<Rightarrow> False)"
  using assms
proof (induction "setTimeout (spy_ledger L)" "read_created_position (spy_ledger L) user"
    M c m st rule: retry_loop.induct)
  case (1 M c m st)
  let ?owner = "publicKey user"
  obtain s tr where w: "world st = (s, tr)" by (cases "world st")
  obtain r s1 where g: "getPositionsByUser L ?owner s = (r, s1)"
    by (cases "getPositionsByUser L ?owner s")
  have cb: "read_created_position (spy_ledger L) user (world st) =
      (read_outcome r, (s1, tr @ [GetPositionsByUser ?owner r]))"
    using w g by (simp add: read_created_position_spied)
  show ?case
  proof (cases "read_outcome r")
    case (Inr p)
    with 1(2,3) cb have "out = Return p" "tr' = tr @ [GetPositionsByUser ?owner r]"
      by (auto simp: retry_loop.simps[of _ _ _ _ _ st] retry_body_def)
    then show ?thesis using w Inr 1(3)
      by (intro exI[of _ "[r]"]) (auto simp: readings_append)
  next
    case (Inl e)
    show ?thesis
    proof (cases "attempt st = M")
      case True
      with 1(2,3) cb Inl have "out = ThrowInLoop e" "tr' = tr @ [GetPositionsByUser ?owner r]"
        by (auto simp: retry_loop.simps[of _ _ _ _ _ st] retry_body_def)
      then show ?thesis using w True Inl
        by (intro exI[of _ "[r]"]) (auto simp: readings_append)
    next
      case False
      define st' where "st' = \<lparr>attempt = attempt st + 1, lastError = e, delay = delay st * m,
         world = (setTimeout L (min (delay st) c) s1,
                  tr @ [GetPositionsByUser ?owner r, SetTimeout (min (delay st) c)])\<rparr>"
      have body: "retry_body (setTimeout (spy_ledger L))
          (read_created_position (spy_ledger L) user) M c m st = Inr st'"
        using cb Inl False by (simp add: retry_body_def sleep_def spied_calls st'_def)
      have le': "attempt st' \<le> M" using False 1(3) by (simp add: st'_def)
      have run: "retry_loop (setTimeout (spy_ledger L))
          (read_created_position (spy_ledger L) user) M c m st' = (out, (s', tr'))"
        using 1(2,3) body by (simp add: retry_loop.simps[of _ _ _ _ _ st])
      from 1(1)[OF 1(3) body run le'] obtain rs where rs:
        "position_reads tr' = position_reads (snd (world st')) @ rs" "rs \<noteq> []"
        "length rs \<le> nat (M + 1 - attempt st')"
        "\<forall>r \<in> set (butlast rs). isl (read_outcome r)"
        "create_requests tr' = create_requests (snd (world st'))"
        "(case out of Return p \<Rightarrow> read_outcome (last rs) = Inr p
         | ThrowInLoop e \<Rightarrow> read_outcome (last rs) = Inl e
              \<and> length rs = nat (M + 1 - attempt st')
         | ThrowAfterLoop e \<Rightarrow> False)" by blast
      have "position_reads tr' = position_reads (snd (world st)) @ (r # rs)"
        using rs(1) w by (simp add: st'_def readings_append)
      moreover have "length (r # rs) \<le> nat (M + 1 - attempt st)"
        using rs(3) le' by (simp add: st'_def)
      moreover have "\<forall>x \<in> set (butlast (r # rs)). isl (read_outcome x)"
        using rs(4) rs(2) Inl by simp
      moreover have "create_requests tr' = create_requests (snd (world st))"
        using rs(5) w by (simp add: st'_def readings_append)
      moreover have "(case out of Return p \<Rightarrow> read_outcome (last (r # rs)) = Inr p
         | ThrowInLoop e' \<Rightarrow> read_outcome (last (r # rs)) = Inl e'
              \<and> length (r # rs) = nat (M + 1 - attempt st)
         | ThrowAfterLoop e \<Rightarrow> False)"
        using rs(6) rs(2) le' by (auto simp: st'_def split: retry_exit.splits)
      ultimately show ?thesis by (intro exI[of _ "r # rs"]) simp
    qed
  qed
qed

lemma read_retry_spied:
  assumes "0 \<le> maxRetries options"
    and "retry (setTimeout (spy_ledger L)) (read_created_position (spy_ledger L) user) options
           (s, tr) = (res, (s', tr'))"
  shows "\<exists>rs. position_reads tr' = position_reads tr @ rs \<and> rs \<noteq> []
     \<and> int (length rs) \<le> maxRetries options + 1
     \<and> (\<forall>r \<in> set (butlast rs). isl (read_outcome r))
     \<and> create_requests tr' = create_requests tr
     \<and> res = read_outcome (last rs)
     \<and> (isl res \<longrightarrow> int (length rs) = maxRetries options + 1)"
proof -
  obtain out where loop: "retry_loop (setTimeout (spy_ledger L))
      (read_created_position (spy_ledger L) user) (maxRetries options) (maxDelay_of options)
      (backoffMultiplier_of options) (retry_init options (s, tr)) = (out, (s', tr'))"
    and res: "res = settle out"
    using assms(2) by (auto simp: retry_def retry_run_def split: prod.splits)
  have a0: "attempt (retry_init options (s, tr)) \<le> maxRetries options"
    using assms(1) by (simp add: retry_init_def)
  have "\<exists>rs. position_reads tr' = position_reads tr @ rs \<and> rs \<noteq> []
     \<and> length rs \<le> nat (maxRetries options + 1)
     \<and> (\<forall>r \<in> set (butlast rs). isl (read_outcome r))
     \<and> create_requests tr' = create_requests tr
     \<and> (case out of Return p \<Rightarrow> read_outcome (last rs) = Inr p
         | ThrowInLoop e \<Rightarrow> read_outcome (last rs) = Inl e
              \<and> length rs = nat (maxRetries options + 1)
         | ThrowAfterLoop e \<Rightarrow> False)"
    using read_loop_spied[OF loop a0] unfolding retry_init_sel diff_zero snd_conv by simp
  then obtain rs where rs: "position_reads tr' = position_reads tr @ rs" "rs \<noteq> []"
     "length rs \<le> nat (maxRetries options + 1)"
     "\<forall>r \<in> set (butlast rs). isl (read_outcome r)"
     "create_requests tr' = create_requests tr"
     "(case out of Return p \<Rightarrow> read_outcome (last rs) = Inr p
         | ThrowInLoop e \<Rightarrow> read_outcome (last rs) = Inl e
              \<and> length rs = nat (maxRetries options + 1)
         | ThrowAfterLoop e \<Rightarrow> False)" by blast
  from rs(6) res assms(1) have "res = read_outcome (last rs)
      \<and> (isl res \<longrightarrow> int (length rs) = maxRetries options + 1)"
    by (cases out) auto
  with rs(1-5) assms(1) show ?thesis by (intro exI[of _ rs]) auto
qed

lemma found_is_last:
  assumes "\<forall>r \<in> set (butlast rs). isl (read_outcome r)" and "Inr found \<in> set rs"
    and "found \<noteq> []"
  shows "last rs = Inr found"
proof -
  from assms(2) have ne: "rs \<noteq> []" by auto
  from assms(3) obtain p ps where "found = p # ps" by (cases found) auto
  then have "\<not> isl (read_outcome (Inr found))" by simp
  with assms(1) have "Inr found \<notin> set (butlast rs)" by blast
  moreover have "set rs = set (butlast rs) \<union> {last rs}"
  proof -
    have "rs = butlast rs @ [last rs]" using ne by simp
    then have "set rs = set (butlast rs @ [last rs])" by simp
    then show ?thesis by simp
  qed
  ultimately show ?thesis using assms(2) by auto
qed

lemma all_empty_outcome:
  assumes "\<forall>r \<in> set rs. r = Inr []" and "rs \<noteq> []"
  shows "read_outcome (last rs) = Inl (Error ''Position not found after creation'')"
proof -
  have "last rs \<in> set rs" using assms(2) by simp
  with assms(1) have "last rs = Inr []" by blast
  then show ?thesis by simp
qed

text \<open>
  C5. Once the create write is confirmed, \<^verbatim>\<open>createPosition\<close> reads the owner's positions
  through \<^verbatim>\<open>retry\<close>, between 1 and \<open>budget + 1\<close> times (\<open>budget\<close> is 8 in one copy of
  the file and 3 in the other), and settles as the last read decides. A read that answers a
  non-empty list is the last one, and the first position of that list is returned; when
  every read answers the empty list, \<open>budget + 1\<close> reads were made and the function fails
  with "Position not found after creation"; it fails only after \<open>budget + 1\<close> reads; and it
  asks for no further create transaction.
\<close>

theorem createPosition_reads_until_visible:
  assumes "0 \<le> budget"
    and "createPosition_write (spy_ledger L) user poolState quote (s, tr) =
           (Inr signature, (s1, tr1))"
  shows "(let run = createPosition_with budget (spy_ledger L) user poolState quote (s, tr);
              rs = drop (length (position_reads tr1)) (position_reads (snd (snd run)))
          in take (length (position_reads tr1)) (position_reads (snd (snd run)))
               = position_reads tr1
           \<and> 1 \<le> length rs \<and> int (length rs) \<le> budget + 1
           \<and> fst run = read_outcome (last rs)
           \<and> (\<forall>found. Inr found \<in> set rs \<and> found \<noteq> [] \<longrightarrow>
                 last rs = Inr found \<and> fst run = Inr (found ! 0))
           \<and> ((\<forall>r \<in> set rs. r = Inr []) \<longrightarrow>
                 int (length rs) = budget + 1
               \<and> fst run = Inl (Error ''Position not found after creation''))
           \<and> (\<forall>e. fst run = Inl e \<longrightarrow> int (length rs) = budget + 1)
           \<and> create_requests (snd (snd run)) = create_requests tr1)"
proof -
  define options where "options = \<lparr>maxRetries = budget, initialDelay = Some 1000,
      maxDelay = Some 30000, backoffMultiplier = Some 2, debug = None\<rparr>"
  define run where "run = createPosition_with budget (spy_ledger L) user poolState quote (s, tr)"
  have run_eq: "run = retry (setTimeout (spy_ledger L))
      (read_created_position (spy_ledger L) user) options (s1, tr1)"
    unfolding run_def createPosition_with_def io_bind_def options_def using assms(2) by simp
  obtain res s' tr' where r: "run = (res, (s', tr'))" by (metis surj_pair)
  have M: "0 \<le> maxRetries options" "maxRetries options = budget"
    using assms(1) by (simp_all add: options_def)
  from read_retry_spied[OF M(1) r[unfolded run_eq]] obtain rs where rs:
    "position_reads tr' = position_reads tr1 @ rs" "rs \<noteq> []"
    "int (length rs) \<le> budget + 1"
    "\<forall>r \<in> set (butlast rs). isl (read_outcome r)"
    "create_requests tr' = create_requests tr1"
    "res = read_outcome (last rs)"
    "isl res \<longrightarrow> int (length rs) = budget + 1"
    unfolding M(2) by blast
  have drop: "drop (length (position_reads tr1)) (position_reads (snd (snd run))) = rs"
    and take: "take (length (position_reads tr1)) (position_reads (snd (snd run)))
        = position_reads tr1"
    using rs(1) r by simp_all
  have one: "1 \<le> length rs" using rs(2) by (cases rs) auto
  have fnd: "\<forall>found. Inr found \<in> set rs \<and> found \<noteq> [] \<longrightarrow>
                 last rs = Inr found \<and> fst run = Inr (found ! 0)"
  proof (intro allI impI)
    fix found assume f: "Inr found \<in> set rs \<and> found \<noteq> []"
    then have l: "last rs = Inr found" using found_is_last[OF rs(4)] by blast
    from f obtain p ps where "found = p # ps" by (cases found) auto
    then show "last rs = Inr found \<and> fst run = Inr (found ! 0)"
      using l rs(6) r by simp
  qed
  have emp: "(\<forall>r \<in> set rs. r = Inr []) \<longrightarrow>
                 int (length rs) = budget + 1
               \<and> fst run = Inl (Error ''Position not found after creation'')"
  proof
    assume a: "\<forall>r \<in> set rs. r = Inr []"
    from all_empty_outcome[OF a rs(2)] rs(6,7) r
    show "int (length rs) = budget + 1
               \<and> fst run = Inl (Error ''Position not found after creation'')" by simp
  qed
  have rej: "\<forall>e. fst run = Inl e \<longrightarrow> int (length rs) = budget + 1"
    using rs(7) r by auto
  have res_eq: "fst run = read_outcome (last rs)" using rs(6) r by simp
  have cr: "create_requests (snd (snd run)) = create_requests tr1" using rs(5) r by simp
  show ?thesis
    unfolding Let_def run_def[symmetric] drop
    using take one rs(3) res_eq fnd emp rej cr by blast
qed


theorem createPosition_reads_until_visible_witness:
  "(0::int) \<le> 8
   \<and> fst (createPosition_write (spy_ledger stub_ledger) alice stub_pool stub_quote
        (no_position, [])) = Inr ''signature''
   \<and> drop (length (position_reads (snd (snd (createPosition_write (spy_ledger stub_ledger)
          alice stub_pool stub_quote (no_position, []))))))
        (position_reads (snd (snd (createPosition (spy_ledger stub_ledger) alice stub_pool
          stub_quote (no_position, [])))))
       = [Inr [], Inr [], Inr [stub_position]]
   \<and> fst (createPosition (spy_ledger stub_ledger) alice stub_pool stub_quote (no_position, []))
       = Inr stub_position
   \<and> fst (createPosition_second_copy (spy_ledger stub_ledger) alice stub_pool stub_quote
        (no_position, [])) = Inr stub_position
   \<and> drop (length (position_reads (snd (snd (createPosition_write (spy_ledger stub_ledger)
          alice stub_pool stub_quote (no_position, []))))))
        (position_reads (snd (snd (createPosition_with 1 (spy_ledger stub_ledger) alice
          stub_pool stub_quote (no_position, [])))))
       = [Inr [], Inr []]
   \<and> fst (createPosition_with 1 (spy_ledger stub_ledger) alice stub_pool stub_quote
        (no_position, [])) = Inl (Error ''Position not found after creation'')"
proof -
  let ?w = "createPosition_write (spy_ledger stub_ledger) alice stub_pool stub_quote
        (no_position, [])"
  have f: "fst ?w = Inr ''signature''" by code_simp
  then have h2: "?w = (Inr ''signature'', (fst (snd ?w), snd (snd ?w)))"
    by (simp add: prod_eq_iff)
  have r8: "drop (length (position_reads (snd (snd ?w))))
        (position_reads (snd (snd (createPosition_with 8 (spy_ledger stub_ledger) alice stub_pool
          stub_quote (no_position, [])))))
       = [Inr [], Inr [], Inr [stub_position]]" by code_simp
  have r1: "drop (length (position_reads (snd (snd ?w))))
        (position_reads (snd (snd (createPosition_with 1 (spy_ledger stub_ledger) alice
          stub_pool stub_quote (no_position, [])))))
       = [Inr [], Inr []]" by code_simp
  from createPosition_reads_until_visible[OF _ h2, of 8, unfolded Let_def r8]
  have a: "fst (createPosition_with 8 (spy_ledger stub_ledger) alice stub_pool
          stub_quote (no_position, [])) = Inr stub_position" by simp
  have r3: "drop (length (position_reads (snd (snd ?w))))
        (position_reads (snd (snd (createPosition_with 3 (spy_ledger stub_ledger) alice stub_pool
          stub_quote (no_position, [])))))
       = [Inr [], Inr [], Inr [stub_position]]" by code_simp
  from createPosition_reads_until_visible[OF _ h2, of 3, unfolded Let_def r3]
  have a3: "fst (createPosition_with 3 (spy_ledger stub_ledger) alice stub_pool
          stub_quote (no_position, [])) = Inr stub_position" by simp
  from createPosition_reads_until_visible[OF _ h2, of 1, unfolded Let_def r1]
  have b: "fst (createPosition_with 1 (spy_ledger stub_ledger) alice stub_pool stub_quote
        (no_position, [])) = Inl (Error ''Position not found after creation'')" by simp
  show ?thesis using f r8 r1 a a3 b
    by (simp add: createPosition_def createPosition_second_copy_def)
qed

lemma main_body_existing:
  assumes "connect L s = (Inr user, s0)"
    and "getPositionsByUser L (publicKey user) s0 = (Inr found, s1)" and "found \<noteq> []"
  shows "main_body (spy_ledger L) (s, []) =
           io_bind (fetchPoolState (spy_ledger L) SOL_USDC_POOL_PK)
             (\<lambda>poolState. closePosition (spy_ledger L) user (found ! 0) poolState)
             (setTimeout L 1000 s1,
              [Connect (Inr user), GetPositionsByUser (publicKey user) (Inr found),
               SetTimeout 1000])"
  using assms
  by (simp add: main_body_def io_bind_def io_return_def sleep_def spied_calls)

text \<open>
  C8. When the first read of a run answers a non-empty list, the run goes on with the wait
  of one second, the read of the pool state and \<^verbatim>\<open>closePosition\<close> on the first position
  of that list: it asks for no deposit quote and for no create transaction, and every close
  request is for that position.
\<close>

theorem main_existing_position_skips_creation:
  assumes "connect L s = (Inr user, s0)"
    and "getPositionsByUser L (publicKey user) s0 = (Inr found, s1)" and "found \<noteq> []"
  shows "(let log = snd (snd (main_body (spy_ledger L) (s, [])));
              start = [Connect (Inr user), GetPositionsByUser (publicKey user) (Inr found),
                       SetTimeout 1000]
          in main_body (spy_ledger L) (s, []) =
               io_bind (fetchPoolState (spy_ledger L) SOL_USDC_POOL_PK)
                 (\<lambda>poolState. closePosition (spy_ledger L) user (found ! 0) poolState)
                 (setTimeout L 1000 s1, start)
           \<and> take 3 log = start
           \<and> create_requests log = [] \<and> quote_requests log = []
           \<and> (\<forall>p \<in> set (close_requests log).
                 position_close p = position (found ! 0)
               \<and> positionNftAccount_close p = positionNftAccount (found ! 0)
               \<and> positionState_close p = positionState (found ! 0)))"
proof -
  let ?start = "[Connect (Inr user), GetPositionsByUser (publicKey user) (Inr found),
                 SetTimeout 1000]"
  let ?log = "snd (snd (main_body (spy_ledger L) (s, [])))"
  note eq = main_body_existing[OF assms]
  obtain r s2 where fp: "fetchPoolState L SOL_USDC_POOL_PK (setTimeout L 1000 s1) = (r, s2)"
    by (metis surj_pair)
  have "take 3 ?log = ?start \<and> create_requests ?log = [] \<and> quote_requests ?log = []
      \<and> (\<forall>p \<in> set (close_requests ?log).
                 position_close p = position (found ! 0)
               \<and> positionNftAccount_close p = positionNftAccount (found ! 0)
               \<and> positionState_close p = positionState (found ! 0))"
  proof (cases r)
    case (Inl e)
    then have "?log = ?start @ [FetchPoolState SOL_USDC_POOL_PK (Inl e)]"
      using fp by (simp add: eq io_bind_def spied_calls)
    then show ?thesis by simp
  next
    case (Inr poolState)
    let ?tr = "?start @ [FetchPoolState SOL_USDC_POOL_PK (Inr poolState)]"
    have l: "?log = snd (snd (closePosition (spy_ledger L) user (found ! 0) poolState
        (s2, ?tr)))"
      using fp Inr by (simp add: eq io_bind_def spied_calls)
    obtain r' rest where "?log = ?tr @ RemoveAllLiquidityAndClosePosition
        (close_request user (found ! 0) poolState) r' # rest"
      using closePosition_first_call[of L user "found ! 0" poolState s2 ?tr] l by auto
    then have t: "take 3 ?log = ?start" by simp
    have "close_requests ?log = [close_request user (found ! 0) poolState]"
      "create_requests ?log = []" "quote_requests ?log = []"
      unfolding l closePosition_readings by simp_all
    with t show ?thesis by (simp add: close_request_def)
  qed
  then show ?thesis unfolding Let_def using eq by blast
qed

theorem main_existing_position_skips_creation_witness:
  "connect stub_ledger one_position = (Inr alice, one_position)
   \<and> getPositionsByUser stub_ledger (publicKey alice) one_position =
       (Inr [stub_position], one_position\<lparr>reads := 1\<rparr>)
   \<and> [stub_position] \<noteq> []
   \<and> create_requests (snd (snd (main_body (spy_ledger stub_ledger) (one_position, [])))) = []
   \<and> quote_requests (snd (snd (main_body (spy_ledger stub_ledger) (one_position, [])))) = []
   \<and> close_requests (snd (snd (main_body (spy_ledger stub_ledger) (one_position, [])))) =
       [close_request alice stub_position stub_pool]
   \<and> fst (main_body (spy_ledger stub_ledger) (one_position, [])) = Inr ()"
proof -
  have h1: "connect stub_ledger one_position = (Inr alice, one_position)"
    by (simp add: stub_ledger_def)
  have h2: "getPositionsByUser stub_ledger (publicKey alice) one_position =
       (Inr [stub_position], one_position\<lparr>reads := 1\<rparr>)"
    by (simp add: stub_ledger_def one_position_def)
  have h3: "[stub_position] \<noteq> []" by simp
  have c: "close_requests (snd (snd (main_body (spy_ledger stub_ledger) (one_position, [])))) =
       [close_request alice stub_position stub_pool]" by code_simp
  have f: "fst (main_body (spy_ledger stub_ledger) (one_position, [])) = Inr ()" by code_simp
  from main_existing_position_skips_creation[OF h1 h2 h3, unfolded Let_def]
  show ?thesis using h1 h2 c f by blast
qed

end
